theory Spec2Isabelle
  imports Main
begin

section \<open>Strings\<close>

text \<open>
  A Python \<open>str\<close> is a sequence of Unicode code points: \<open>len\<close> and slicing count code
  points, not bytes. The card texts of the bot are Russian, so a string is modelled as the
  list of its code points. \<open>asc\<close> embeds an ASCII literal.
\<close>

type_synonym pystr = "nat list"

definition asc :: "string \<Rightarrow> pystr" where
  "asc s = map of_char s"

text \<open>\<open>xs[:m]\<close>: a negative bound counts from the end and is clamped at the start.\<close>

definition slice_to :: "'a list \<Rightarrow> int \<Rightarrow> 'a list" where
  "slice_to xs m =
     (if 0 \<le> m then take (nat m) xs else take (nat (int (length xs) + m)) xs)"

text \<open>\<open>str(n)\<close> for a non-negative integer: its decimal digits.\<close>

fun str_nat :: "nat \<Rightarrow> pystr" where
  "str_nat n = (if n < 10 then [48 + n] else str_nat (n div 10) @ [48 + n mod 10])"

declare str_nat.simps [simp del]

text \<open>\<open>sep.join(xs)\<close>.\<close>

fun join :: "pystr \<Rightarrow> pystr list \<Rightarrow> pystr" where
  "join sep [] = []"
| "join sep [x] = x"
| "join sep (x # y # ys) = x @ sep @ join sep (y # ys)"

section \<open>tarot\_deck.py: cards\<close>

datatype CardType = MAJOR | CUPS | SWORDS | WANDS | PENTACLES

text \<open>
  The enum values are the Russian names of the suits:
  "Starshie Arkany", "Kubki", "Mechi", "Zhezly", "Pentakli".
\<close>

fun CardType_value :: "CardType \<Rightarrow> pystr" where
  "CardType_value MAJOR =
     [1057, 1090, 1072, 1088, 1096, 1080, 1077, 32, 1040, 1088, 1082, 1072, 1085, 1099]"
| "CardType_value CUPS = [1050, 1091, 1073, 1082, 1080]"
| "CardType_value SWORDS = [1052, 1077, 1095, 1080]"
| "CardType_value WANDS = [1046, 1077, 1079, 1083, 1099]"
| "CardType_value PENTACLES = [1055, 1077, 1085, 1090, 1072, 1082, 1083, 1080]"

text \<open>
  The dataclass \<open>TarotCard\<close>. The field \<open>keywords\<close> is declared \<open>List[str] = None\<close>, so
  before \<open>__post_init__\<close> it may hold \<open>None\<close>: it is an option here (primed, since
  \<open>keywords\<close> is reserved in theory headers).
\<close>

record TarotCard =
  name :: pystr
  upright :: pystr
  reversed :: pystr
  card_type :: CardType
  number :: "int option"
  keywords' :: "pystr list option"
  element :: pystr
  astro :: pystr

definition post_init :: "TarotCard \<Rightarrow> TarotCard" where
  "post_init self = (if keywords' self = None then self\<lparr>keywords' := Some []\<rparr> else self)"

text \<open>
  The generated \<open>__init__\<close> stores the arguments and then runs \<open>__post_init__\<close>. An
  omitted \<open>keywords\<close> argument takes the default \<open>None\<close>.
\<close>

definition new_TarotCard ::
  "pystr \<Rightarrow> pystr \<Rightarrow> pystr \<Rightarrow> CardType \<Rightarrow> int option \<Rightarrow> pystr list option \<Rightarrow> pystr \<Rightarrow> pystr
     \<Rightarrow> TarotCard" where
  "new_TarotCard nm up rv ty num kws el ast =
     post_init \<lparr>name = nm, upright = up, reversed = rv, card_type = ty, number = num,
                keywords' = kws, element = el, astro = ast\<rparr>"

definition get_meaning :: "TarotCard \<Rightarrow> bool \<Rightarrow> pystr" where
  "get_meaning self is_reversed = (if is_reversed then reversed self else upright self)"

definition get_short_meaning :: "TarotCard \<Rightarrow> bool \<Rightarrow> int \<Rightarrow> pystr" where
  "get_short_meaning self is_reversed max_length =
     (let meaning = get_meaning self is_reversed
      in if int (length meaning) > max_length
         then slice_to meaning max_length @ asc ''...''
         else meaning)"

text \<open>
  \<open>get_description\<close> builds the full text of a card. The literals are, in order: the
  orientation ("Perevernutaya" after a down triangle, "Pryamaya" after an up triangle), the
  title line, "Tip:", "Polozhenie:", "Znachenie:", "Klyuchevye slova:", "Stikhiya:",
  "Astrologiya:", each after its emoji. \<open>if self.keywords\<close> holds for a non-empty list.
\<close>

definition get_description :: "TarotCard \<Rightarrow> bool \<Rightarrow> pystr" where
  "get_description self is_reversed =
     (let position =
            (if is_reversed
             then [128315, 32, 1055, 1077, 1088, 1077, 1074, 1077, 1088, 1085, 1091, 1090,
                   1072, 1103]
             else [128314, 32, 1055, 1088, 1103, 1084, 1072, 1103]);
          description = [127924, 32, 42] @ name self @ [42, 10];
          description = description @ [128202, 32, 42, 1058, 1080, 1087, 58, 42, 32]
            @ CardType_value (card_type self) @ [10];
          description = description
            @ [9878, 65039, 32, 42, 1055, 1086, 1083, 1086, 1078, 1077, 1085, 1080, 1077, 58,
               42, 32]
            @ position @ [10, 10];
          description = description
            @ [128214, 32, 42, 1047, 1085, 1072, 1095, 1077, 1085, 1080, 1077, 58, 42, 10]
            @ get_meaning self is_reversed @ [10, 10];
          description =
            (case keywords' self of
               Some (k # ks) \<Rightarrow> description
                 @ [127991, 65039, 32, 42, 1050, 1083, 1102, 1095, 1077, 1074, 1099, 1077, 32,
                    1089, 1083, 1086, 1074, 1072, 58, 42, 32]
                 @ join (asc '', '') (k # ks) @ [10]
             | _ \<Rightarrow> description);
          description =
            (if element self \<noteq> []
             then description @ [127807, 32, 42, 1057, 1090, 1080, 1093, 1080, 1103, 58, 42, 32]
               @ element self @ [10]
             else description);
          description =
            (if astro self \<noteq> []
             then description
               @ [11088, 32, 42, 1040, 1089, 1090, 1088, 1086, 1083, 1086, 1075, 1080, 1103,
                  58, 42, 32]
               @ astro self @ [10]
             else description)
      in description)"

text \<open>The name, a down or up triangle in brackets, a dash and the short meaning.\<close>

definition get_short_description :: "TarotCard \<Rightarrow> bool \<Rightarrow> pystr" where
  "get_short_description self is_reversed =
     name self @ asc '' ('' @ (if is_reversed then [128315] else [128314]) @ asc '') - ''
       @ get_short_meaning self is_reversed 100"

text \<open>\<open>to_dict\<close> returns a dict literal; the keys are kept in the order they are written.\<close>

definition to_dict :: "TarotCard \<Rightarrow> bool \<Rightarrow> (string \<times> pystr) list" where
  "to_dict self is_reversed =
     [(''name'', name self),
      (''type'', CardType_value (card_type self)),
      (''position'', if is_reversed then asc ''reversed'' else asc ''upright''),
      (''meaning'', get_meaning self is_reversed),
      (''short_meaning'', get_short_meaning self is_reversed 100)]"

text \<open>
  The first card of the built-in deck:
  \<open>TarotCard("0. Shut", "Nachalo, svoboda, nevinnost'", "Bezrassudstvo, risk",
  CardType.MAJOR, 0, ["nachalo", "svoboda"], "Vozdukh")\<close>.
\<close>

definition the_fool :: TarotCard where
  "the_fool = new_TarotCard
     [48, 46, 32, 1064, 1091, 1090]
     [1053, 1072, 1095, 1072, 1083, 1086, 44, 32, 1089, 1074, 1086, 1073, 1086, 1076, 1072,
      44, 32, 1085, 1077, 1074, 1080, 1085, 1085, 1086, 1089, 1090, 1100]
     [1041, 1077, 1079, 1088, 1072, 1089, 1089, 1091, 1076, 1089, 1090, 1074, 1086, 44, 32,
      1088, 1080, 1089, 1082]
     MAJOR (Some 0)
     (Some [[1085, 1072, 1095, 1072, 1083, 1086], [1089, 1074, 1086, 1073, 1086, 1076, 1072]])
     [1042, 1086, 1079, 1076, 1091, 1093]
     []"

text \<open>"I. Mag": will, mastery, concentration / manipulation, weakness; Mercury.\<close>

definition the_magician :: TarotCard where
  "the_magician = new_TarotCard
     [73, 46, 32, 1052, 1072, 1075]
     [1042, 1086, 1083, 1103, 44, 32, 1084, 1072, 1089, 1090, 1077, 1088, 1089, 1090, 1074,
      1086, 44, 32, 1082, 1086, 1085, 1094, 1077, 1085, 1090, 1088, 1072, 1094, 1080, 1103]
     [1052, 1072, 1085, 1080, 1087, 1091, 1083, 1103, 1094, 1080, 1080, 44, 32, 1089, 1083,
      1072, 1073, 1086, 1089, 1090, 1100]
     MAJOR (Some 1)
     (Some [[1074, 1086, 1083, 1103], [1084, 1072, 1089, 1090, 1077, 1088, 1089, 1090, 1074,
            1086]])
     [1052, 1077, 1088, 1082, 1091, 1088, 1080, 1081]
     []"

text \<open>"II. Verkhovnaya Zhritsa": intuition, secret knowledge / hidden motives; Moon.\<close>

definition the_high_priestess :: TarotCard where
  "the_high_priestess = new_TarotCard
     [73, 73, 46, 32, 1042, 1077, 1088, 1093, 1086, 1074, 1085, 1072, 1103, 32, 1046, 1088,
      1080, 1094, 1072]
     [1048, 1085, 1090, 1091, 1080, 1094, 1080, 1103, 44, 32, 1090, 1072, 1081, 1085, 1086,
      1077, 32, 1079, 1085, 1072, 1085, 1080, 1077]
     [1057, 1082, 1088, 1099, 1090, 1099, 1077, 32, 1084, 1086, 1090, 1080, 1074, 1099]
     MAJOR (Some 2)
     (Some [[1080, 1085, 1090, 1091, 1080, 1094, 1080, 1103], [1090, 1072, 1081, 1085, 1099]])
     [1051, 1091, 1085, 1072]
     []"

text \<open>"III. Imperatritsa": abundance, creativity / dependence; Venus.\<close>

definition the_empress :: TarotCard where
  "the_empress = new_TarotCard
     [73, 73, 73, 46, 32, 1048, 1084, 1087, 1077, 1088, 1072, 1090, 1088, 1080, 1094, 1072]
     [1048, 1079, 1086, 1073, 1080, 1083, 1080, 1077, 44, 32, 1090, 1074, 1086, 1088, 1095,
      1077, 1089, 1090, 1074, 1086]
     [1047, 1072, 1074, 1080, 1089, 1080, 1084, 1086, 1089, 1090, 1100]
     MAJOR (Some 3)
     (Some [[1080, 1079, 1086, 1073, 1080, 1083, 1080, 1077], [1090, 1074, 1086, 1088, 1095,
            1077, 1089, 1090, 1074, 1086]])
     [1042, 1077, 1085, 1077, 1088, 1072]
     []"

text \<open>"IV. Imperator": power, structure / tyranny; Mars.\<close>

definition the_emperor :: TarotCard where
  "the_emperor = new_TarotCard
     [73, 86, 46, 32, 1048, 1084, 1087, 1077, 1088, 1072, 1090, 1086, 1088]
     [1042, 1083, 1072, 1089, 1090, 1100, 44, 32, 1089, 1090, 1088, 1091, 1082, 1090, 1091,
      1088, 1072]
     [1058, 1080, 1088, 1072, 1085, 1080, 1103]
     MAJOR (Some 4)
     (Some [[1074, 1083, 1072, 1089, 1090, 1100], [1089, 1090, 1088, 1091, 1082, 1090, 1091,
            1088, 1072]])
     [1052, 1072, 1088, 1089]
     []"

text \<open>The list \<open>major_arcana\<close> of \<open>_create_basic_deck\<close>.\<close>

definition major_arcana :: "TarotCard list" where
  "major_arcana = [the_fool, the_magician, the_high_priestess, the_empress, the_emperor]"

section \<open>tarot\_deck.py: loading the deck\<close>

datatype error =
  KeyError | ValueError | TypeError | IndexError | JSONDecodeError | InsufficientCardsError

text \<open>\<open>CardType(value)\<close>: the member with that value, \<open>ValueError\<close> when there is none.\<close>

definition CardType_of :: "pystr \<Rightarrow> error + CardType" where
  "CardType_of v =
     (if v = CardType_value MAJOR then Inr MAJOR
      else if v = CardType_value CUPS then Inr CUPS
      else if v = CardType_value SWORDS then Inr SWORDS
      else if v = CardType_value WANDS then Inr WANDS
      else if v = CardType_value PENTACLES then Inr PENTACLES
      else Inl ValueError)"

text \<open>
  One object of the JSON file \<open>data/tarot_deck.json\<close>, as \<open>json.load\<close> returns it. A field
  is \<open>None\<close> when its key is absent (for \<open>number\<close> and \<open>keywords\<close> also when it is
  \<open>null\<close>, which gives the same card). \<open>f_other_keys\<close> lists the keys that are no field of
  \<open>TarotCard\<close>. The values present have the types the dataclass declares; the dataclass
  itself does not check them.
\<close>

record card_data =
  f_name :: "pystr option"
  f_upright :: "pystr option"
  f_reversed :: "pystr option"
  f_card_type :: "pystr option"
  f_number :: "int option"
  f_keywords :: "pystr list option"
  f_element :: "pystr option"
  f_astro :: "pystr option"
  f_other_keys :: "string list"

text \<open>An element of the top-level list: an object, or a value that cannot be indexed by a key.\<close>

datatype json_item = JObject card_data | JNotObject

text \<open>
  The deck file: absent; present but unreadable or rejected by \<open>json.load\<close>; or the
  sequence of items that the loop iterates over. A top-level value that cannot be iterated
  fails like a first item that is no object: with \<open>TypeError\<close> and no card appended.
\<close>

datatype deck_file = Missing | Unparsable | Items "json_item list"

text \<open>
  The body of the loop for one item:
  \<open>card_data['card_type'] = CardType(card_data['card_type'])\<close>, then
  \<open>TarotCard(**card_data)\<close>, which raises \<open>TypeError\<close> for an unexpected key and for a
  missing \<open>name\<close>, \<open>upright\<close> or \<open>reversed\<close>.
\<close>

definition card_from_data :: "json_item \<Rightarrow> error + TarotCard" where
  "card_from_data item =
     (case item of
        JNotObject \<Rightarrow> Inl TypeError
      | JObject d \<Rightarrow>
          (case f_card_type d of
             None \<Rightarrow> Inl KeyError
           | Some v \<Rightarrow>
               (case CardType_of v of
                  Inl e \<Rightarrow> Inl e
                | Inr ty \<Rightarrow>
                    (if f_other_keys d \<noteq> [] then Inl TypeError
                     else
                       (case (f_name d, f_upright d, f_reversed d) of
                          (Some nm, Some up, Some rv) \<Rightarrow>
                            Inr (new_TarotCard nm up rv ty (f_number d) (f_keywords d)
                                   (case f_element d of None \<Rightarrow> [] | Some el \<Rightarrow> el)
                                   (case f_astro d of None \<Rightarrow> [] | Some ast \<Rightarrow> ast))
                        | _ \<Rightarrow> Inl TypeError)))))"

text \<open>What the deck prints while loading.\<close>

datatype printed = Loaded_from_file nat | Load_failed error | Created_basic nat

record TarotDeck =
  cards :: "TarotCard list"
  printed_lines :: "printed list"

text \<open>
  The \<open>for\<close> loop of \<open>load_deck\<close>: every parsed card is appended to \<open>self.cards\<close> at
  once, so an exception at a later item leaves the earlier cards in the list.
\<close>

fun load_cards :: "json_item list \<Rightarrow> TarotCard list \<Rightarrow> error option \<times> TarotCard list" where
  "load_cards [] cs = (None, cs)"
| "load_cards (item # items) cs =
     (case card_from_data item of
        Inl e \<Rightarrow> (Some e, cs)
      | Inr c \<Rightarrow> load_cards items (cs @ [c]))"

text \<open>
  Modelled from the spec: \<open>TarotDeck._create_basic_deck\<close>. The source file ends inside the
  literal of its fourth list, so neither the complete built-in catalog nor the statement
  that stores it is in the sources. The spec has the loader fall back to the built-in
  minimal catalog, a reload replacing the entire contents of the deck. The catalog is the
  parameter \<open>builtin\<close>; it starts with \<open>major_arcana\<close>.
\<close>

definition create_basic_deck :: "TarotCard list \<Rightarrow> TarotDeck \<Rightarrow> TarotDeck" where
  "create_basic_deck builtin self = self\<lparr>cards := builtin\<rparr>"

definition basic_fallback :: "TarotCard list \<Rightarrow> TarotDeck \<Rightarrow> TarotDeck" where
  "basic_fallback builtin self =
     (let self = create_basic_deck builtin self
      in self\<lparr>printed_lines := printed_lines self @ [Created_basic (length (cards self))]\<rparr>)"

definition load_deck :: "TarotCard list \<Rightarrow> deck_file \<Rightarrow> TarotDeck \<Rightarrow> TarotDeck" where
  "load_deck builtin file self =
     (case file of
        Missing \<Rightarrow> basic_fallback builtin self
      | Unparsable \<Rightarrow>
          basic_fallback builtin (self\<lparr>printed_lines := printed_lines self @ [Load_failed JSONDecodeError]\<rparr>)
      | Items items \<Rightarrow>
          (case load_cards items (cards self) of
             (None, cs) \<Rightarrow>
               self\<lparr>cards := cs, printed_lines := printed_lines self @ [Loaded_from_file (length cs)]\<rparr>
           | (Some e, cs) \<Rightarrow>
               basic_fallback builtin
                 (self\<lparr>cards := cs, printed_lines := printed_lines self @ [Load_failed e]\<rparr>)))"

text \<open>\<open>TarotDeck()\<close>: an empty list of cards, then \<open>load_deck\<close>.\<close>

definition new_TarotDeck :: "TarotCard list \<Rightarrow> deck_file \<Rightarrow> TarotDeck" where
  "new_TarotDeck builtin file = load_deck builtin file \<lparr>cards = [], printed_lines = []\<rparr>"

text \<open>
  A deck file is malformed when it exists and loading it raises: \<open>json.load\<close> rejects it,
  or the loop raises at some item (an unknown or missing \<open>card_type\<close>, a missing required
  field, an unexpected key, an item that is no object).
\<close>

definition malformed :: "deck_file \<Rightarrow> bool" where
  "malformed file =
     (case file of
        Missing \<Rightarrow> False
      | Unparsable \<Rightarrow> True
      | Items items \<Rightarrow> list_ex (\<lambda>item. isl (card_from_data item)) items)"

section \<open>tarot\_deck.py: drawing\<close>

text \<open>
  Modelled from the spec: the source of randomness that a draw reads (the code that reads
  it is not in the sources). It is an infinite sequence of numbers and the count of those
  already read; every theorem below holds for every such sequence.
\<close>

record rng =
  numbers :: "nat \<Rightarrow> nat"
  consumed :: nat

definition randbelow :: "nat \<Rightarrow> rng \<Rightarrow> nat \<times> rng" where
  "randbelow k g = (numbers g (consumed g) mod k, g\<lparr>consumed := Suc (consumed g)\<rparr>)"

definition coin_flip :: "rng \<Rightarrow> bool \<times> rng" where
  "coin_flip g = (numbers g (consumed g) mod 2 = 1, g\<lparr>consumed := Suc (consumed g)\<rparr>)"

text \<open>
  Modelled from the spec: sampling without replacement and the orientations, the two steps
  of \<open>Deck.draw\<close>. A position of the remaining pool is picked and taken out of the
  pool, \<open>k\<close> times; then one coin is flipped for each card drawn.
\<close>

fun sample :: "'a list \<Rightarrow> nat \<Rightarrow> rng \<Rightarrow> 'a list \<times> rng" where
  "sample pool 0 g = ([], g)"
| "sample [] (Suc k) g = ([], g)"
| "sample (x # xs) (Suc k) g =
     (let (i, g1) = randbelow (Suc (length xs)) g;
          (rest, g2) = sample (take i (x # xs) @ drop (Suc i) (x # xs)) k g1
      in ((x # xs) ! i # rest, g2))"

fun orientations :: "nat \<Rightarrow> rng \<Rightarrow> bool list \<times> rng" where
  "orientations 0 g = ([], g)"
| "orientations (Suc k) g =
     (let (r, g1) = coin_flip g;
          (rs, g2) = orientations k g1
      in (r # rs, g2))"

text \<open>
  Modelled from the spec: \<open>TarotDeck.draw_cards\<close>, which \<open>handle_quick_spread\<close> calls and
  whose text lies beyond the end of the source file. The spec's \<open>Deck.draw(n)\<close>, \<open>n \<ge> 0\<close>:
  it fails with \<open>InsufficientCardsError\<close> when \<open>n\<close> exceeds the number of cards loaded,
  checked before any sampling; it samples without replacement; the orientation of each
  drawn card is a coin flip made after the selection; the deck itself is not changed.
  The result pairs each card with \<open>is_reversed\<close>, as \<open>format_spread_response\<close> reads it.
\<close>

definition draw_cards ::
  "TarotDeck \<Rightarrow> nat \<Rightarrow> rng \<Rightarrow> (error + (TarotCard \<times> bool) list) \<times> rng" where
  "draw_cards self n g =
     (if n > length (cards self) then (Inl InsufficientCardsError, g)
      else
        (let (chosen, g1) = sample (cards self) n g;
             (flips, g2) = orientations n g1
         in (Inr (zip chosen flips), g2)))"

section \<open>tarot\_spreads.py: the registry of spreads\<close>

text \<open>
  The dict that \<open>get_spread_info\<close> returns. The bot reads the keys \<open>name\<close>, \<open>cards\<close>,
  \<open>type\<close> and \<open>description\<close> by subscript and \<open>positions\<close> by \<open>get\<close> with a default, so
  \<open>positions\<close> may be absent.
\<close>

record spread_info =
  info_name :: pystr
  info_description :: pystr
  info_cards :: nat
  info_type :: string
  info_positions :: "pystr list option"

text \<open>The table of spreads, from identifier to definition. The module is not in the sources:
  the table is a parameter of the model.\<close>

type_synonym TarotSpreads = "string \<Rightarrow> spread_info option"

text \<open>
  Modelled from the spec: \<open>TarotSpreads.get_spread_info\<close>, of the module
  \<open>tarot_spreads.py\<close> that is not in the sources. The spec's \<open>lookup\<close> returns the
  definition registered for the identifier, or a not-found signal (no exception) that the
  caller tests with \<open>if not spread_info\<close>.
\<close>

definition get_spread_info :: "TarotSpreads \<Rightarrow> string \<Rightarrow> spread_info option" where
  "get_spread_info self spread_id = self spread_id"

section \<open>database.py\<close>

type_synonym timestamp = nat

text \<open>
  The value of a numeric column. SQLite stores an \<open>INTEGER\<close> in 64 bits, signed; where the
  sum of two integers leaves that range, it computes the sum in floating point and stores
  a \<open>REAL\<close>. Floating-point arithmetic is not modelled: \<open>SqlReal\<close> says only that the
  column holds a \<open>REAL\<close>, not which one.
\<close>

datatype sql_number = SqlInteger int | SqlReal

text \<open>The SQL expression \<open>x + 1\<close>.\<close>

definition sql_plus_one :: "sql_number \<Rightarrow> sql_number" where
  "sql_plus_one x =
     (case x of
        SqlInteger i \<Rightarrow> (if i < 2 ^ 63 - 1 then SqlInteger (i + 1) else SqlReal)
      | SqlReal \<Rightarrow> SqlReal)"

text \<open>A row of the table \<open>users\<close>; the primary key \<open>user_id\<close> is the key of the map below.
  The two counters are written by \<open>add_user\<close> (the column default 0) and by
  \<open>update_user_activity\<close> only.\<close>

record user_row =
  username :: "pystr option"
  first_name :: pystr
  last_name :: "pystr option"
  language_code :: "pystr option"
  is_bot :: bool
  created_at :: timestamp
  last_activity :: "timestamp option"
  cards_drawn :: sql_number
  readings_count :: sql_number

text \<open>A row of the table \<open>readings\<close>; \<open>reading_cards\<close> is the JSON text of the cards.\<close>

record reading_row =
  reading_id :: nat
  reading_user_id :: int
  reading_spread_type :: string
  reading_cards :: pystr
  reading_created_at :: timestamp

record Database =
  users :: "int \<Rightarrow> user_row option"
  readings :: "reading_row list"

text \<open>A Telegram user (\<open>types.User\<close>) and the part of a message the handlers read.\<close>

record tg_user =
  tg_id :: int
  tg_username :: "pystr option"
  tg_first_name :: pystr
  tg_last_name :: "pystr option"
  tg_language_code :: "pystr option"
  tg_is_bot :: bool

record message =
  from_user :: tg_user
  chat_id :: int

text \<open>\<open>INSERT OR IGNORE\<close>: a user already in the table is left as it is.\<close>

definition add_user :: "Database \<Rightarrow> timestamp \<Rightarrow> tg_user \<Rightarrow> Database" where
  "add_user self now user =
     (case users self (tg_id user) of
        Some row \<Rightarrow> self
      | None \<Rightarrow>
          self\<lparr>users := (users self)(tg_id user \<mapsto>
            \<lparr>username = tg_username user, first_name = tg_first_name user,
             last_name = tg_last_name user, language_code = tg_language_code user,
             is_bot = tg_is_bot user, created_at = now, last_activity = Some now,
             cards_drawn = SqlInteger 0, readings_count = SqlInteger 0\<rparr>)\<rparr>)"

text \<open>\<open>UPDATE users SET ... WHERE user_id = ?\<close>: no row matches an unknown user.\<close>

definition update_user_activity :: "Database \<Rightarrow> timestamp \<Rightarrow> int \<Rightarrow> Database" where
  "update_user_activity self now user_id =
     (case users self user_id of
        None \<Rightarrow> self
      | Some row \<Rightarrow>
          self\<lparr>users := (users self)(user_id \<mapsto>
            row\<lparr>last_activity := Some now,
                cards_drawn := sql_plus_one (cards_drawn row),
                readings_count := sql_plus_one (readings_count row)\<rparr>)\<rparr>)"

text \<open>
  \<open>save_reading\<close> inserts one row and returns its id. \<open>json.dumps\<close> belongs to the
  standard library: it is the parameter \<open>dumps\<close>, which raises for a value it cannot
  encode, before the \<open>INSERT\<close> is executed. No row is ever deleted, so the next
  \<open>AUTOINCREMENT\<close> id is the number of rows plus one.
\<close>

definition save_reading ::
  "('c \<Rightarrow> error + pystr) \<Rightarrow> Database \<Rightarrow> timestamp \<Rightarrow> int \<Rightarrow> string \<Rightarrow> 'c
     \<Rightarrow> error + (Database \<times> nat)" where
  "save_reading dumps self now user_id spread_type cs =
     (case dumps cs of
        Inl e \<Rightarrow> Inl e
      | Inr txt \<Rightarrow>
          (let lastrowid = Suc (length (readings self))
           in Inr (self\<lparr>readings := readings self @
                     [\<lparr>reading_id = lastrowid, reading_user_id = user_id,
                       reading_spread_type = spread_type, reading_cards = txt,
                       reading_created_at = now\<rparr>]\<rparr>,
                   lastrowid)))"

definition get_user_stats :: "Database \<Rightarrow> int \<Rightarrow> user_row option" where
  "get_user_stats self user_id = users self user_id"

section \<open>tarot\_bot.py\<close>

text \<open>\<open>enumerate(xs, 1)\<close>.\<close>

definition enumerate1 :: "'a list \<Rightarrow> (nat \<times> 'a) list" where
  "enumerate1 xs = zip [1..<Suc (length xs)] xs"

text \<open>The default labels of the three-card layout: "Proshloe", "Nastoyashchee",
  "Budushchee" (past, present, future).\<close>

definition default_positions :: "pystr list" where
  "default_positions =
     [[1055, 1088, 1086, 1096, 1083, 1086, 1077],
      [1053, 1072, 1089, 1090, 1086, 1103, 1097, 1077, 1077],
      [1041, 1091, 1076, 1091, 1097, 1077, 1077]]"

text \<open>
  The variables of one pass of the loop of the \<open>three_cards\<close> branch, over
  \<open>enumerate(zip(cards_data, positions), 1)\<close>: the number, the label, the card and its
  orientation. \<open>zip\<close> stops at the shorter of the two lists.
\<close>

definition three_cards_entries ::
  "pystr list \<Rightarrow> (TarotCard \<times> bool) list \<Rightarrow> (nat \<times> pystr \<times> TarotCard \<times> bool) list" where
  "three_cards_entries positions cards_data =
     map (\<lambda>(i, ((tcard, is_reversed), position)). (i, position, tcard, is_reversed))
       (enumerate1 (zip cards_data positions))"

text \<open>
  The label of the card number \<open>i\<close> in the last branch:
  \<open>positions[i-1] if i <= len(positions) else f"Karta {i}"\<close> ("Karta" is Russian for
  card). The loop counts from 1, so \<open>i - 1\<close> is never negative.
\<close>

definition generic_position :: "pystr list \<Rightarrow> nat \<Rightarrow> pystr" where
  "generic_position positions i =
     (if i \<le> length positions then positions ! (i - 1)
      else [1050, 1072, 1088, 1090, 1072, 32] @ str_nat i)"

text \<open>The variables of one pass of the loop of the last branch, over
  \<open>enumerate(cards_data, 1)\<close>.\<close>

definition generic_entries ::
  "pystr list \<Rightarrow> (TarotCard \<times> bool) list \<Rightarrow> (nat \<times> pystr \<times> TarotCard \<times> bool) list" where
  "generic_entries positions cards_data =
     map (\<lambda>(i, (tcard, is_reversed)). (i, generic_position positions i, tcard, is_reversed))
       (enumerate1 cards_data)"

text \<open>The two lines added for one card: \<open>f"*{i}. {position}:*\n"\<close> and the description of
  the card followed by an empty line.\<close>

definition full_entry :: "nat \<times> pystr \<times> TarotCard \<times> bool \<Rightarrow> pystr" where
  "full_entry e =
     (case e of (i, position, tcard, is_reversed) \<Rightarrow>
        asc ''*'' @ str_nat i @ asc ''. '' @ position @ asc '':*'' @ [10]
          @ get_description tcard is_reversed @ [10, 10])"

definition short_entry :: "nat \<times> pystr \<times> TarotCard \<times> bool \<Rightarrow> pystr" where
  "short_entry e =
     (case e of (i, position, tcard, is_reversed) \<Rightarrow>
        asc ''*'' @ str_nat i @ asc ''. '' @ position @ asc '':*'' @ [10]
          @ get_short_description tcard is_reversed @ [10, 10])"

text \<open>
  \<open>format_spread_response\<close>. The heading is the name of the spread, "dlya" (for) and the
  user's name between sparkles; the \<open>daily\<close> branch reads \<open>cards_data[0]\<close>, which raises
  \<open>IndexError\<close> on an empty list, and ends with the advice of the day.
\<close>

definition format_spread_response ::
  "spread_info \<Rightarrow> (TarotCard \<times> bool) list \<Rightarrow> pystr \<Rightarrow> error + pystr" where
  "format_spread_response spread_info cards_data user_name =
     (let response = [10024, 32, 42] @ info_name spread_info @ [32, 1076, 1083, 1103, 32]
            @ user_name @ [42, 32, 10024, 10, 10]
      in
        if info_type spread_info = ''daily'' then
          (case cards_data of
             [] \<Rightarrow> Inl IndexError
           | (tcard, is_reversed) # _ \<Rightarrow>
               Inr (response @ get_description tcard is_reversed
                 @ [10, 10, 127749, 32, 42, 1057, 1086, 1074, 1077, 1090, 32, 1085, 1072, 32,
                    1076, 1077, 1085, 1100, 58, 42, 32, 1055, 1088, 1080, 1089, 1083, 1091,
                    1096, 1072, 1081, 1090, 1077, 1089, 1100, 32, 1082, 32, 1080, 1085, 1090,
                    1091, 1080, 1094, 1080, 1080, 33]))
        else if info_type spread_info = ''three_cards'' then
          (let positions =
                 (case info_positions spread_info of
                    None \<Rightarrow> default_positions
                  | Some ps \<Rightarrow> ps);
               response = response @ asc ''*'' @ info_description spread_info @ asc ''*''
                 @ [10, 10]
           in Inr (response @ concat (map full_entry (three_cards_entries positions cards_data))))
        else
          (let positions = (case info_positions spread_info of None \<Rightarrow> [] | Some ps \<Rightarrow> ps);
               response = response @ asc ''*'' @ info_description spread_info @ asc ''*''
                 @ [10, 10]
           in Inr (response @ concat (map short_entry (generic_entries positions cards_data)))))"

text \<open>
  What a handler can change: the source of randomness, the database, the messages sent
  through the Telegram client (chat and text), and the record of the calls of
  \<open>deck.draw_cards\<close> (the count asked for). The deck and the registry are only read.
\<close>

record world =
  generator :: rng
  db :: Database
  sent :: "(int \<times> pystr) list"
  draw_calls :: "nat list"

definition send_message :: "world \<Rightarrow> int \<Rightarrow> pystr \<Rightarrow> world" where
  "send_message w chat txt = w\<lparr>sent := sent w @ [(chat, txt)]\<rparr>"

text \<open>The reply for an unknown spread: a cross mark and "Rasklad ne najden" (spread not
  found).\<close>

definition not_found_text :: pystr where
  "not_found_text =
     [10060, 32, 1056, 1072, 1089, 1082, 1083, 1072, 1076, 32, 1085, 1077, 32, 1085, 1072,
      1081, 1076, 1077, 1085]"

text \<open>
  \<open>json.dumps\<close> of the standard library on the value the handler passes to
  \<open>save_reading\<close>: the list of pairs that \<open>format_spread_response\<close> unpacks into a card and
  its orientation. The empty list is encoded as \<open>[]\<close>; a \<open>TarotCard\<close> is an instance of a
  dataclass, which the encoder does not know, so a list that holds one raises
  \<open>TypeError\<close>.
\<close>

definition json_dumps :: "(TarotCard \<times> bool) list \<Rightarrow> error + pystr" where
  "json_dumps cards_data = (case cards_data of [] \<Rightarrow> Inr (asc ''[]'') | _ \<Rightarrow> Inl TypeError)"

text \<open>
  \<open>handle_quick_spread\<close>. The result is the exception that left the handler, if any, and
  the world at that moment. The clock is the parameter \<open>now\<close>; writing to the log file is
  not modelled.
\<close>

definition handle_quick_spread ::
  "TarotSpreads \<Rightarrow> TarotDeck \<Rightarrow> ((TarotCard \<times> bool) list \<Rightarrow> error + pystr) \<Rightarrow> timestamp
     \<Rightarrow> message \<Rightarrow> string \<Rightarrow> world \<Rightarrow> error option \<times> world" where
  "handle_quick_spread spreads deck dumps now msg spread_type w =
     (let user = from_user msg
      in
        case get_spread_info spreads spread_type of
          None \<Rightarrow> (None, send_message w (chat_id msg) not_found_text)
        | Some spread_info \<Rightarrow>
            (case draw_cards deck (info_cards spread_info) (generator w) of
               (drawn, g) \<Rightarrow>
                 (let w1 = w\<lparr>generator := g,
                             draw_calls := draw_calls w @ [info_cards spread_info]\<rparr>
                  in
                    case drawn of
                      Inl e \<Rightarrow> (Some e, w1)
                    | Inr cards_data \<Rightarrow>
                        (case format_spread_response spread_info cards_data
                                (tg_first_name user) of
                           Inl e \<Rightarrow> (Some e, w1)
                         | Inr response \<Rightarrow>
                             (case save_reading dumps (db w1) now (tg_id user) spread_type
                                     cards_data of
                                Inl e \<Rightarrow> (Some e, w1)
                              | Inr (db1, rowid) \<Rightarrow>
                                  (let db2 = update_user_activity db1 now (tg_id user)
                                   in (None,
                                       send_message (w1\<lparr>db := db2\<rparr>) (chat_id msg)
                                         response)))))))"

section \<open>Example values\<close>

text \<open>A source of randomness, and a deck holding the five cards of \<open>major_arcana\<close>.\<close>

definition ex_rng :: rng where
  "ex_rng = \<lparr>numbers = (\<lambda>i. 7 * i + 3), consumed = 0\<rparr>"

definition ex_deck :: TarotDeck where
  "ex_deck = \<lparr>cards = major_arcana, printed_lines = []\<rparr>"

text \<open>
  Two entries of a registry, as examples (the registry itself is not in the sources): the
  three-card spread with its three labels, and a spread of three cards with one label.
\<close>

definition ex_three_cards :: spread_info where
  "ex_three_cards = \<lparr>info_name = asc ''Three cards'', info_description = asc ''Past, present, future'',
         info_cards = 3, info_type = ''three_cards'', info_positions = Some default_positions\<rparr>"

definition ex_short_positions :: spread_info where
  "ex_short_positions = \<lparr>info_name = asc ''Love'', info_description = asc ''Feelings'',
         info_cards = 3, info_type = ''love'', info_positions = Some [asc ''You'']\<rparr>"

definition ex_spreads :: TarotSpreads where
  "ex_spreads = [''three_cards'' \<mapsto> ex_three_cards, ''love_spread'' \<mapsto> ex_short_positions]"

text \<open>A three-card spread whose list of labels has a single label.\<close>

definition ex_three_short :: spread_info where
  "ex_three_short = ex_three_cards\<lparr>info_positions := Some [asc ''You'']\<rparr>"

text \<open>A user, a message of that user, the row \<open>add_user\<close> stores for the user at time 5, a
  world in which the user is registered.\<close>

definition ex_user :: tg_user where
  "ex_user = \<lparr>tg_id = 42, tg_username = None, tg_first_name = asc ''Anna'', tg_last_name = None,
     tg_language_code = None, tg_is_bot = False\<rparr>"

definition ex_message :: message where
  "ex_message = \<lparr>from_user = ex_user, chat_id = 42\<rparr>"

definition ex_row :: user_row where
  "ex_row = \<lparr>username = None, first_name = asc ''Anna'', last_name = None,
     language_code = None, is_bot = False, created_at = 5, last_activity = Some 5,
     cards_drawn = SqlInteger 0, readings_count = SqlInteger 0\<rparr>"

definition ex_world :: world where
  "ex_world = \<lparr>generator = ex_rng,
     db = add_user \<lparr>users = Map.empty, readings = []\<rparr> 5 ex_user,
     sent = [], draw_calls = []\<rparr>"

text \<open>The reading that \<open>ex_rng\<close> draws from \<open>ex_deck\<close>.\<close>

definition ex_drawn :: "(TarotCard \<times> bool) list" where
  "ex_drawn = [(the_empress, False), (the_high_priestess, True), (the_emperor, False)]"

text \<open>A deck file of two objects: a card that is not in \<open>major_arcana\<close>, and an object whose
  \<open>card_type\<close> is the name of the enum member instead of its value.\<close>

definition ex_sun_data :: card_data where
  "ex_sun_data = \<lparr>f_name = Some (asc ''The Sun''), f_upright = Some (asc ''Joy''),
     f_reversed = Some (asc ''Gloom''), f_card_type = Some (CardType_value MAJOR),
     f_number = Some 19, f_keywords = None, f_element = None, f_astro = None,
     f_other_keys = []\<rparr>"

definition ex_bad_data :: card_data where
  "ex_bad_data = ex_sun_data\<lparr>f_name := Some (asc ''The Moon''), f_card_type := Some (asc ''MAJOR'')\<rparr>"

definition ex_sun :: TarotCard where
  "ex_sun = new_TarotCard (asc ''The Sun'') (asc ''Joy'') (asc ''Gloom'') MAJOR (Some 19) None [] []"

definition ex_file :: deck_file where
  "ex_file = Items [JObject ex_sun_data, JObject ex_bad_data]"

section \<open>Properties of a single card\<close>

lemma length_asc: "length (asc s) = length s"
  by (simp add: asc_def)

text \<open>
  Claim C9. For a positive \<open>max_length\<close>, \<open>get_short_meaning\<close> returns the meaning selected
  by the orientation unchanged when it has at most \<open>max_length\<close> characters, and otherwise
  its first \<open>max_length\<close> characters followed by three dots; the result is never longer
  than \<open>max_length + 3\<close>.
\<close>

theorem get_short_meaning_truncates:
  assumes "0 < max_length"
  shows "get_meaning self r = (if r then reversed self else upright self)
    \<and> get_short_meaning self r max_length =
        (if int (length (get_meaning self r)) \<le> max_length then get_meaning self r
         else take (nat max_length) (get_meaning self r) @ asc ''...'')
    \<and> int (length (get_short_meaning self r max_length)) \<le> max_length + 3"
  using assms
  by (auto simp: get_short_meaning_def get_meaning_def slice_to_def Let_def length_asc)

theorem get_short_meaning_truncates_witness:
  "(0::int) < 6
   \<and> get_short_meaning the_fool False 6 = [1053, 1072, 1095, 1072, 1083, 1086, 46, 46, 46]
   \<and> get_short_meaning the_fool True 100 = reversed the_fool
   \<and> int (length (get_short_meaning the_fool False 6)) \<le> 6 + 3"
  using get_short_meaning_truncates [of 6 the_fool False]
    get_short_meaning_truncates [of 100 the_fool True]
  by (simp add: get_meaning_def the_fool_def new_TarotCard_def post_init_def asc_def)

text \<open>
  Claim C10. After construction the \<open>keywords\<close> attribute is a list and never \<open>None\<close>: an
  omitted or \<open>None\<close> argument is replaced by the empty list, any other list is kept.
\<close>

theorem keywords_never_none:
  "keywords' (new_TarotCard nm up rv ty num kws el ast) =
     Some (case kws of None \<Rightarrow> [] | Some ks \<Rightarrow> ks)
   \<and> keywords' (new_TarotCard nm up rv ty num kws el ast) \<noteq> None
   \<and> keywords' (new_TarotCard nm up rv ty num None el ast) = Some []"
  by (simp add: new_TarotCard_def post_init_def split: option.split)

text \<open>
  Claim C3, as amended. \<open>to_dict\<close> returns five entries: \<open>name\<close>, \<open>type\<close> (the value of
  the card type), \<open>position\<close>, which is \<open>reversed\<close> exactly for a reversed card and
  \<open>upright\<close> otherwise, and also \<open>meaning\<close> and \<open>short_meaning\<close>, the meaning text of the
  orientation in full and cut to 100 characters.
\<close>

theorem to_dict_entries:
  "map fst (to_dict self r) = [''name'', ''type'', ''position'', ''meaning'', ''short_meaning'']
   \<and> map_of (to_dict self r) ''name'' = Some (name self)
   \<and> map_of (to_dict self r) ''type'' = Some (CardType_value (card_type self))
   \<and> map_of (to_dict self r) ''position'' = Some (if r then asc ''reversed'' else asc ''upright'')
   \<and> (map_of (to_dict self r) ''position'' = Some (asc ''reversed'')) = r
   \<and> map_of (to_dict self r) ''meaning'' = Some (get_meaning self r)
   \<and> map_of (to_dict self r) ''short_meaning'' = Some (get_short_meaning self r 100)"
  by (simp add: to_dict_def asc_def)

text \<open>
  The claim as stated fails: the record of the first card of the deck, drawn upright,
  holds its upright meaning "Nachalo, svoboda, nevinnost'" under \<open>meaning\<close>, and has no key
  \<open>card_type\<close>.
\<close>

theorem to_dict_holds_meaning:
  "map_of (to_dict the_fool False) ''meaning'' =
     Some [1053, 1072, 1095, 1072, 1083, 1086, 44, 32, 1089, 1074, 1086, 1073, 1086, 1076,
           1072, 44, 32, 1085, 1077, 1074, 1080, 1085, 1085, 1086, 1089, 1090, 1100]
   \<and> map_of (to_dict the_fool False) ''card_type'' = None"
  by (simp add: to_dict_def get_meaning_def the_fool_def new_TarotCard_def post_init_def)

section \<open>Properties of drawing\<close>

lemma remove_nth_length:
  "i < length xs \<Longrightarrow> length (take i xs @ drop (Suc i) xs) = length xs - 1"
  by simp

lemma remove_nth_subset: "set (take i xs @ drop (Suc i) xs) \<subseteq> set xs"
  by (auto dest: in_set_takeD in_set_dropD)

lemma remove_nth_distinct:
  assumes "distinct (map f xs)" and "i < length xs"
  shows "distinct (map f (take i xs @ drop (Suc i) xs))"
    and "f (xs ! i) \<notin> f ` set (take i xs @ drop (Suc i) xs)"
proof -
  have "xs = take i xs @ xs ! i # drop (Suc i) xs"
    using assms(2) by (rule id_take_nth_drop)
  then have "distinct (map f (take i xs @ xs ! i # drop (Suc i) xs))"
    using assms(1) by simp
  then show "distinct (map f (take i xs @ drop (Suc i) xs))"
    and "f (xs ! i) \<notin> f ` set (take i xs @ drop (Suc i) xs)"
    by auto
qed

lemma sample_step:
  assumes "sample (x # xs) (Suc k) g = (chosen, g')"
  obtains i g1 rest where "randbelow (Suc (length xs)) g = (i, g1)"
    and "i < length (x # xs)"
    and "sample (take i (x # xs) @ drop (Suc i) (x # xs)) k g1 = (rest, g')"
    and "chosen = (x # xs) ! i # rest"
proof -
  obtain i g1 where r: "randbelow (Suc (length xs)) g = (i, g1)"
    by (cases "randbelow (Suc (length xs)) g")
  obtain rest g2 where s: "sample (take i (x # xs) @ drop (Suc i) (x # xs)) k g1 = (rest, g2)"
    by (cases "sample (take i (x # xs) @ drop (Suc i) (x # xs)) k g1")
  have "sample (x # xs) (Suc k) g = ((x # xs) ! i # rest, g2)"
    by (simp only: sample.simps r s Let_def prod.case)
  then have "chosen = (x # xs) ! i # rest" and "g' = g2"
    using assms by (simp_all only: prod.inject)
  moreover have "i < length (x # xs)"
    using r by (auto simp: randbelow_def)
  ultimately show thesis
    using r s that by blast
qed

lemma sample_length:
  "k \<le> length pool \<Longrightarrow> sample pool k g = (chosen, g') \<Longrightarrow> length chosen = k"
proof (induction pool k g arbitrary: chosen g' rule: sample.induct)
  case (3 x xs k g)
  from "3.prems"(2) obtain i g1 rest
    where r: "randbelow (Suc (length xs)) g = (i, g1)"
      and i: "i < length (x # xs)"
      and s: "sample (take i (x # xs) @ drop (Suc i) (x # xs)) k g1 = (rest, g')"
      and chosen: "chosen = (x # xs) ! i # rest"
    by (rule sample_step)
  have "k \<le> length (take i (x # xs) @ drop (Suc i) (x # xs))"
    using "3.prems"(1) remove_nth_length [OF i] by linarith
  then have "length rest = k"
    using s by (rule "3.IH" [OF r [symmetric] refl])
  then show ?case
    unfolding chosen by simp
qed simp_all

lemma sample_distinct:
  "distinct (map f pool) \<Longrightarrow> sample pool k g = (chosen, g') \<Longrightarrow>
     distinct (map f chosen) \<and> set chosen \<subseteq> set pool"
proof (induction pool k g arbitrary: chosen g' rule: sample.induct)
  case (3 x xs k g)
  from "3.prems"(2) obtain i g1 rest
    where r: "randbelow (Suc (length xs)) g = (i, g1)"
      and i: "i < length (x # xs)"
      and s: "sample (take i (x # xs) @ drop (Suc i) (x # xs)) k g1 = (rest, g')"
      and chosen: "chosen = (x # xs) ! i # rest"
    by (rule sample_step)
  have ih: "distinct (map f rest) \<and>
      set rest \<subseteq> set (take i (x # xs) @ drop (Suc i) (x # xs))"
    using remove_nth_distinct(1) [OF "3.prems"(1) i] s
    by (rule "3.IH" [OF r [symmetric] refl])
  have n: "f ((x # xs) ! i) \<notin> f ` set (take i (x # xs) @ drop (Suc i) (x # xs))"
    using "3.prems"(1) i by (rule remove_nth_distinct(2))
  have mem: "(x # xs) ! i \<in> set (x # xs)"
    using i by (rule nth_mem)
  show ?case
    unfolding chosen using ih n mem remove_nth_subset [of i "x # xs"]
    by (simp only: list.map distinct.simps set_simps set_map insert_subset) blast
qed auto

lemma orientations_length: "orientations k g = (flips, g') \<Longrightarrow> length flips = k"
  by (induction k arbitrary: g flips g') (auto split: prod.splits)

text \<open>A draw within the size of a deck of distinct names.\<close>

lemma draw_cards_ok:
  assumes "distinct (map name (cards deck))" and "n \<le> length (cards deck)"
  shows "\<exists>ds g'. draw_cards deck n g = (Inr ds, g') \<and> length ds = n
           \<and> distinct (map (name \<circ> fst) ds) \<and> set (map fst ds) \<subseteq> set (cards deck)"
proof -
  obtain chosen g1 where s: "sample (cards deck) n g = (chosen, g1)"
    by (cases "sample (cards deck) n g")
  obtain flips g2 where f: "orientations n g1 = (flips, g2)"
    by (cases "orientations n g1")
  have d: "draw_cards deck n g = (Inr (zip chosen flips), g2)"
    using assms(2) by (simp add: draw_cards_def s f)
  have lc: "length chosen = n"
    using assms(2) s by (rule sample_length)
  have lf: "length flips = n"
    using f by (rule orientations_length)
  have fst_zip: "map fst (zip chosen flips) = chosen"
    using lc lf by simp
  have dc: "distinct (map name chosen) \<and> set chosen \<subseteq> set (cards deck)"
    using assms(1) s by (rule sample_distinct)
  have "distinct (map (name \<circ> fst) (zip chosen flips))"
    using dc fst_zip by (metis map_map)
  moreover have "set (map fst (zip chosen flips)) \<subseteq> set (cards deck)"
    using dc fst_zip by simp
  moreover have "length (zip chosen flips) = n"
    using lc lf by simp
  ultimately show ?thesis
    using d by blast
qed

lemma draw_cards_insufficient:
  "length (cards deck) < n \<Longrightarrow> draw_cards deck n g = (Inl InsufficientCardsError, g)"
  by (simp add: draw_cards_def)

lemma major_arcana_names: "distinct (map name major_arcana)"
  by (simp add: major_arcana_def the_fool_def the_magician_def the_high_priestess_def
      the_empress_def the_emperor_def new_TarotCard_def post_init_def)

lemma cards_ex_deck: "cards ex_deck = major_arcana"
  by (simp add: ex_deck_def)

lemma length_major_arcana: "length major_arcana = 5"
  by (simp add: major_arcana_def)

lemma ex_sample:
  "sample major_arcana (Suc (Suc (Suc 0))) ex_rng =
     ([the_empress, the_high_priestess, the_emperor], ex_rng\<lparr>consumed := 3\<rparr>)"
  by (simp add: major_arcana_def ex_rng_def randbelow_def)

lemma ex_orientations:
  "orientations (Suc (Suc (Suc 0))) (ex_rng\<lparr>consumed := 3\<rparr>) =
     ([False, True, False], ex_rng\<lparr>consumed := 6\<rparr>)"
  by (simp add: ex_rng_def coin_flip_def)

lemma ex_draw:
  "draw_cards ex_deck 3 ex_rng =
     (Inr [(the_empress, False), (the_high_priestess, True), (the_emperor, False)],
      ex_rng\<lparr>consumed := 6\<rparr>)"
proof -
  have "draw_cards ex_deck (Suc (Suc (Suc 0))) ex_rng =
     (Inr [(the_empress, False), (the_high_priestess, True), (the_emperor, False)],
      ex_rng\<lparr>consumed := 6\<rparr>)"
    unfolding draw_cards_def
    by (simp add: cards_ex_deck length_major_arcana ex_sample ex_orientations
        del: sample.simps orientations.simps)
  then show ?thesis
    by (simp only: numeral_3_eq_3)
qed

text \<open>
  Claim C2. In a deck whose cards have distinct names, drawing \<open>n\<close> cards with \<open>n\<close> at
  most the size of the deck returns exactly \<open>n\<close> cards of the deck with pairwise distinct
  names (for \<open>n = 0\<close> the empty sequence); for a greater \<open>n\<close> the draw fails with
  \<open>InsufficientCardsError\<close>, no card is returned and the source of randomness has not
  been read.
\<close>

theorem draw_cards_distinct_or_insufficient:
  assumes "distinct (map name (cards deck))"
  shows "if n \<le> length (cards deck)
         then \<exists>ds g'. draw_cards deck n g = (Inr ds, g') \<and> length ds = n
                \<and> distinct (map (name \<circ> fst) ds) \<and> set (map fst ds) \<subseteq> set (cards deck)
         else draw_cards deck n g = (Inl InsufficientCardsError, g)"
  using draw_cards_ok [OF assms] draw_cards_insufficient by simp

theorem draw_cards_distinct_or_insufficient_witness:
  "distinct (map name (cards ex_deck))
   \<and> draw_cards ex_deck 3 ex_rng =
       (Inr [(the_empress, False), (the_high_priestess, True), (the_emperor, False)],
        ex_rng\<lparr>consumed := 6\<rparr>)
   \<and> (\<exists>ds g'. draw_cards ex_deck 3 ex_rng = (Inr ds, g') \<and> length ds = 3
         \<and> distinct (map (name \<circ> fst) ds) \<and> set (map fst ds) \<subseteq> set (cards ex_deck))
   \<and> draw_cards ex_deck 0 ex_rng = (Inr [], ex_rng)
   \<and> draw_cards ex_deck 6 ex_rng = (Inl InsufficientCardsError, ex_rng)"
proof -
  have d: "distinct (map name (cards ex_deck))"
    using major_arcana_names by (simp add: cards_ex_deck)
  have l: "length (cards ex_deck) = 5"
    by (simp add: cards_ex_deck length_major_arcana)
  have z: "draw_cards ex_deck 0 ex_rng = (Inr [], ex_rng)"
    by (simp add: draw_cards_def)
  have a: "\<exists>ds g'. draw_cards ex_deck 3 ex_rng = (Inr ds, g') \<and> length ds = 3
         \<and> distinct (map (name \<circ> fst) ds) \<and> set (map fst ds) \<subseteq> set (cards ex_deck)"
    using draw_cards_distinct_or_insufficient [OF d, of 3 ex_rng] by (simp add: l)
  have b: "draw_cards ex_deck 6 ex_rng = (Inl InsufficientCardsError, ex_rng)"
    using draw_cards_distinct_or_insufficient [OF d, of 6 ex_rng] by (simp add: l)
  show ?thesis
    using d ex_draw a z b by (intro conjI)
qed

section \<open>Properties of loading\<close>

lemma load_cards_fails:
  "list_ex (\<lambda>item. isl (card_from_data item)) items \<Longrightarrow>
     \<exists>e cs'. load_cards items cs = (Some e, cs')"
proof (induction items arbitrary: cs)
  case Nil
  then show ?case by simp
next
  case (Cons item items)
  show ?case
  proof (cases "card_from_data item")
    case (Inl e)
    then show ?thesis by simp
  next
    case (Inr c)
    then have "list_ex (\<lambda>item. isl (card_from_data item)) items"
      using Cons.prems by simp
    then show ?thesis
      using Cons.IH [of "cs @ [c]"] Inr by simp
  qed
qed

lemma ex_card_from_data:
  "card_from_data (JObject ex_sun_data) = Inr ex_sun"
  "card_from_data (JObject ex_bad_data) = Inl ValueError"
  by (simp_all add: card_from_data_def ex_sun_data_def ex_bad_data_def ex_sun_def CardType_of_def
      asc_def)

text \<open>
  Claim C5. When the deck file exists and is malformed, the exception is caught and the
  loader reports the failure and falls back to the built-in catalog: the deck then holds
  exactly the built-in cards, whatever had been appended from the file before the
  failure.
\<close>

theorem load_deck_falls_back:
  assumes "malformed file"
  shows "cards (load_deck builtin file self) = builtin
    \<and> (\<exists>e. printed_lines (load_deck builtin file self) =
          printed_lines self @ [Load_failed e, Created_basic (length builtin)])
    \<and> cards (new_TarotDeck builtin file) = builtin"
proof -
  have a: "cards (load_deck builtin file s) = builtin
    \<and> (\<exists>e. printed_lines (load_deck builtin file s) =
          printed_lines s @ [Load_failed e, Created_basic (length builtin)])" for s
  proof (cases "file")
    case Missing
    then show ?thesis using assms by (simp add: malformed_def)
  next
    case Unparsable
    then show ?thesis
      by (simp add: load_deck_def basic_fallback_def create_basic_deck_def Let_def)
  next
    case (Items items)
    then have "list_ex (\<lambda>item. isl (card_from_data item)) items"
      using assms by (simp add: malformed_def)
    then obtain e cs' where "load_cards items (cards s) = (Some e, cs')"
      using load_cards_fails by blast
    then show ?thesis
      using Items by (simp add: load_deck_def basic_fallback_def create_basic_deck_def Let_def)
  qed
  show ?thesis
    using a [of self] a [of "\<lparr>cards = [], printed_lines = []\<rparr>"]
    by (simp add: new_TarotDeck_def)
qed

theorem load_deck_falls_back_witness:
  "malformed ex_file
   \<and> load_cards [JObject ex_sun_data, JObject ex_bad_data] [] = (Some ValueError, [ex_sun])
   \<and> cards (new_TarotDeck major_arcana ex_file) = major_arcana
   \<and> printed_lines (new_TarotDeck major_arcana ex_file) =
       [Load_failed ValueError, Created_basic 5]
   \<and> ex_sun \<notin> set (cards (new_TarotDeck major_arcana ex_file))"
proof -
  have m: "malformed ex_file"
    by (simp add: malformed_def ex_file_def ex_card_from_data)
  have l: "load_cards [JObject ex_sun_data, JObject ex_bad_data] [] = (Some ValueError, [ex_sun])"
    by (simp add: ex_card_from_data)
  have c: "cards (new_TarotDeck major_arcana ex_file) = major_arcana"
    using load_deck_falls_back [OF m] by simp
  have p: "printed_lines (new_TarotDeck major_arcana ex_file) =
       [Load_failed ValueError, Created_basic 5]"
    by (simp add: new_TarotDeck_def load_deck_def ex_file_def l basic_fallback_def
        create_basic_deck_def Let_def length_major_arcana del: load_cards.simps)
  have n: "ex_sun \<notin> set major_arcana"
    by (simp add: major_arcana_def ex_sun_def the_fool_def the_magician_def
        the_high_priestess_def the_empress_def the_emperor_def new_TarotCard_def post_init_def
        asc_def)
  show ?thesis
    using m l c p n by simp
qed

section \<open>Properties of the responses\<close>

lemma length_enumerate1: "length (enumerate1 xs) = length xs"
  by (simp only: enumerate1_def length_zip length_upt diff_Suc_1 min.idem)

lemma nth_enumerate1: "k < length xs \<Longrightarrow> enumerate1 xs ! k = (Suc k, xs ! k)"
  unfolding enumerate1_def
  by (simp del: upt_Suc)

lemma enumerate1_three: "enumerate1 [a, b, c] = [(1, a), (2, b), (3, c)]"
  by (simp add: enumerate1_def upt_rec numeral_3_eq_3 numeral_2_eq_2)

lemma three_cards_entries_default:
  "three_cards_entries default_positions [(c1, r1), (c2, r2), (c3, r3)] =
     [(1, [1055, 1088, 1086, 1096, 1083, 1086, 1077], c1, r1),
      (2, [1053, 1072, 1089, 1090, 1086, 1103, 1097, 1077, 1077], c2, r2),
      (3, [1041, 1091, 1076, 1091, 1097, 1077, 1077], c3, r3)]"
  by (simp add: three_cards_entries_def default_positions_def enumerate1_three)

text \<open>
  Claim C6, as amended. For a spread whose type is neither \<open>daily\<close> nor \<open>three_cards\<close>,
  the response lists every drawn card in draw order, numbered from 1; the card number \<open>i\<close>
  carries the \<open>i\<close>-th configured label when there is one, and otherwise the label
  "Karta i" built from the Russian word for card and the number.
\<close>

theorem generic_spread_labels:
  assumes "info_type info \<noteq> ''daily''" and "info_type info \<noteq> ''three_cards''"
  shows "format_spread_response info cards_data user_name =
      Inr ([10024, 32, 42] @ info_name info @ [32, 1076, 1083, 1103, 32] @ user_name
        @ [42, 32, 10024, 10, 10] @ asc ''*'' @ info_description info @ asc ''*'' @ [10, 10]
        @ concat (map short_entry
            (generic_entries (case info_positions info of None \<Rightarrow> [] | Some ps \<Rightarrow> ps)
               cards_data)))
    \<and> length (generic_entries positions cards_data) = length cards_data
    \<and> (\<forall>k < length cards_data.
          generic_entries positions cards_data ! k =
            (Suc k,
             (if k < length positions then positions ! k
              else [1050, 1072, 1088, 1090, 1072, 32] @ str_nat (Suc k)),
             fst (cards_data ! k), snd (cards_data ! k)))"
proof (intro conjI allI impI)
  show "format_spread_response info cards_data user_name =
      Inr ([10024, 32, 42] @ info_name info @ [32, 1076, 1083, 1103, 32] @ user_name
        @ [42, 32, 10024, 10, 10] @ asc ''*'' @ info_description info @ asc ''*'' @ [10, 10]
        @ concat (map short_entry
            (generic_entries (case info_positions info of None \<Rightarrow> [] | Some ps \<Rightarrow> ps)
               cards_data)))"
    using assms by (simp add: format_spread_response_def Let_def)
  show "length (generic_entries positions cards_data) = length cards_data"
    by (simp add: generic_entries_def length_enumerate1)
  fix k
  assume k: "k < length cards_data"
  then show "generic_entries positions cards_data ! k =
            (Suc k,
             (if k < length positions then positions ! k
              else [1050, 1072, 1088, 1090, 1072, 32] @ str_nat (Suc k)),
             fst (cards_data ! k), snd (cards_data ! k))"
    by (simp add: generic_entries_def length_enumerate1 nth_enumerate1 generic_position_def
        less_eq_Suc_le split: prod.splits)
qed

theorem generic_spread_labels_witness:
  "info_type ex_short_positions \<noteq> ''daily'' \<and> info_type ex_short_positions \<noteq> ''three_cards''
   \<and> generic_entries [asc ''You''] ex_drawn =
       [(1, asc ''You'', the_empress, False),
        (2, [1050, 1072, 1088, 1090, 1072, 32, 50], the_high_priestess, True),
        (3, [1050, 1072, 1088, 1090, 1072, 32, 51], the_emperor, False)]
   \<and> generic_entries [asc ''You''] ex_drawn ! 1 =
       (2, [1050, 1072, 1088, 1090, 1072, 32] @ str_nat 2, the_high_priestess, True)
   \<and> (\<exists>txt. format_spread_response ex_short_positions ex_drawn (asc ''Anna'') = Inr txt)"
proof -
  have t: "info_type ex_short_positions \<noteq> ''daily''"
      "info_type ex_short_positions \<noteq> ''three_cards''"
    by (simp_all add: ex_short_positions_def)
  have e: "generic_entries [asc ''You''] ex_drawn =
       [(1, asc ''You'', the_empress, False),
        (2, [1050, 1072, 1088, 1090, 1072, 32, 50], the_high_priestess, True),
        (3, [1050, 1072, 1088, 1090, 1072, 32, 51], the_emperor, False)]"
    by (simp add: generic_entries_def ex_drawn_def enumerate1_three generic_position_def
        str_nat.simps)
  have l: "(1::nat) < length ex_drawn" "\<not> (1::nat) < length [asc ''You'']"
    by (simp_all add: ex_drawn_def)
  have n: "ex_drawn ! 1 = (the_high_priestess, True)"
    by (simp add: ex_drawn_def)
  note g = generic_spread_labels [OF t, of ex_drawn "asc ''Anna''" "[asc ''You'']"]
  have k: "generic_entries [asc ''You''] ex_drawn ! 1 =
       (2, [1050, 1072, 1088, 1090, 1072, 32] @ str_nat 2, the_high_priestess, True)"
    using g l n by (simp add: numeral_2_eq_2)
  have f: "\<exists>txt. format_spread_response ex_short_positions ex_drawn (asc ''Anna'') = Inr txt"
    using g by blast
  show ?thesis
    using t e k f by (intro conjI)
qed

text \<open>
  The claim as stated fails in two ways. In the \<open>three_cards\<close> branch the cards are zipped
  with the labels, so with one label and three drawn cards the response has a single
  entry: the second and third card get no label at all. And where a label is synthesized,
  for the second card it is "Karta 2", not "Card 2".
\<close>

theorem labels_not_synthesized_everywhere:
  "info_type ex_three_short = ''three_cards''
   \<and> info_cards ex_three_short = 3
   \<and> info_positions ex_three_short = Some [asc ''You'']
   \<and> length ex_drawn = 3
   \<and> three_cards_entries [asc ''You''] ex_drawn = [(1, asc ''You'', the_empress, False)]
   \<and> format_spread_response ex_three_short ex_drawn (asc ''Anna'') =
       Inr ([10024, 32, 42] @ asc ''Three cards'' @ [32, 1076, 1083, 1103, 32] @ asc ''Anna''
         @ [42, 32, 10024, 10, 10] @ asc ''*'' @ asc ''Past, present, future'' @ asc ''*''
         @ [10, 10] @ full_entry (1, asc ''You'', the_empress, False))
   \<and> generic_position [asc ''You''] 2 = [1050, 1072, 1088, 1090, 1072, 32, 50]
   \<and> generic_position [asc ''You''] 2 \<noteq> asc ''Card 2''"
proof -
  have i: "info_type ex_three_short = ''three_cards''" "info_cards ex_three_short = 3"
      "info_positions ex_three_short = Some [asc ''You'']"
      "info_name ex_three_short = asc ''Three cards''"
      "info_description ex_three_short = asc ''Past, present, future''"
    by (simp_all add: ex_three_short_def ex_three_cards_def)
  have l: "length ex_drawn = 3"
    by (simp add: ex_drawn_def)
  have e: "three_cards_entries [asc ''You''] ex_drawn = [(1, asc ''You'', the_empress, False)]"
    by (simp add: three_cards_entries_def ex_drawn_def enumerate1_def)
  have f: "format_spread_response ex_three_short ex_drawn (asc ''Anna'') =
       Inr ([10024, 32, 42] @ asc ''Three cards'' @ [32, 1076, 1083, 1103, 32] @ asc ''Anna''
         @ [42, 32, 10024, 10, 10] @ asc ''*'' @ asc ''Past, present, future'' @ asc ''*''
         @ [10, 10] @ full_entry (1, asc ''You'', the_empress, False))"
    by (simp add: format_spread_response_def Let_def i e)
  have g: "generic_position [asc ''You''] 2 = [1050, 1072, 1088, 1090, 1072, 32, 50]"
    by (simp add: generic_position_def str_nat.simps)
  have n: "generic_position [asc ''You''] 2 \<noteq> asc ''Card 2''"
    unfolding g by (simp add: asc_def)
  show ?thesis
    using i(1-3) l e f g n by (intro conjI)
qed

section \<open>Properties of the handler\<close>

lemma draw_cards_ok':
  assumes "distinct (map name (cards deck))" and "n \<le> length (cards deck)"
  obtains ds g' where "draw_cards deck n g = (Inr ds, g')" and "length ds = n"
    and "distinct (map (name \<circ> fst) ds)"
  using draw_cards_ok [OF assms] by blast

lemma handle_quick_spread_found:
  assumes "get_spread_info spreads spread_id = Some info"
    and "draw_cards deck (info_cards info) (generator w) = (Inr ds, g')"
  shows "handle_quick_spread spreads deck dumps now msg spread_id w =
      (case format_spread_response info ds (tg_first_name (from_user msg)) of
         Inl e \<Rightarrow>
           (Some e, w\<lparr>generator := g', draw_calls := draw_calls w @ [info_cards info]\<rparr>)
       | Inr response \<Rightarrow>
           (case save_reading dumps (db w) now (tg_id (from_user msg)) spread_id ds of
              Inl e \<Rightarrow>
                (Some e, w\<lparr>generator := g', draw_calls := draw_calls w @ [info_cards info]\<rparr>)
            | Inr (db1, rowid) \<Rightarrow>
                (None, w\<lparr>generator := g',
                          db := update_user_activity db1 now (tg_id (from_user msg)),
                          sent := sent w @ [(chat_id msg, response)],
                          draw_calls := draw_calls w @ [info_cards info]\<rparr>)))"
  using assms
  by (simp add: handle_quick_spread_def send_message_def Let_def split: sum.splits prod.splits)


lemma ex_world_simps:
  "generator ex_world = ex_rng"
  "draw_calls ex_world = []"
  "sent ex_world = []"
  "users (db ex_world) 42 = Some ex_row"
  "readings (db ex_world) = []"
  "tg_id (from_user ex_message) = 42"
  "chat_id ex_message = 42"
  by (simp_all add: ex_world_def ex_message_def ex_user_def add_user_def ex_row_def)

lemma ex_lookup: "get_spread_info ex_spreads ''three_cards'' = Some ex_three_cards"
  by (simp add: get_spread_info_def ex_spreads_def)

lemma ex_lookup_love: "get_spread_info ex_spreads ''love_spread'' = Some ex_short_positions"
  by (simp add: get_spread_info_def ex_spreads_def)

lemma ex_draw_world:
  "draw_cards ex_deck 3 (generator ex_world) = (Inr ex_drawn, ex_rng\<lparr>consumed := 6\<rparr>)"
  by (simp only: ex_world_simps ex_draw ex_drawn_def)

text \<open>
  Claim C4. For a spread identifier that the registry does not know, the handler raises
  nothing and answers with the not-found text; \<open>draw_cards\<close> is not called, the source of
  randomness is not read, and the database is left as it was.
\<close>

theorem unknown_spread_not_found:
  assumes "get_spread_info spreads spread_id = None"
  shows "handle_quick_spread spreads deck dumps now msg spread_id w =
           (None, w\<lparr>sent := sent w @ [(chat_id msg, not_found_text)]\<rparr>)
    \<and> fst (handle_quick_spread spreads deck dumps now msg spread_id w) = None
    \<and> draw_calls (snd (handle_quick_spread spreads deck dumps now msg spread_id w)) = draw_calls w
    \<and> generator (snd (handle_quick_spread spreads deck dumps now msg spread_id w)) = generator w
    \<and> db (snd (handle_quick_spread spreads deck dumps now msg spread_id w)) = db w"
  using assms by (simp add: handle_quick_spread_def send_message_def)

theorem unknown_spread_not_found_witness:
  "get_spread_info ex_spreads ''nonexistent_spread_id'' = None
   \<and> handle_quick_spread ex_spreads ex_deck json_dumps 7 ex_message ''nonexistent_spread_id'' ex_world =
       (None, ex_world\<lparr>sent := [(42, not_found_text)]\<rparr>)
   \<and> db (snd (handle_quick_spread ex_spreads ex_deck json_dumps 7 ex_message
         ''nonexistent_spread_id'' ex_world)) = db ex_world"
proof -
  have n: "get_spread_info ex_spreads ''nonexistent_spread_id'' = None"
    by (simp add: get_spread_info_def ex_spreads_def)
  have s: "sent ex_world = []" and c: "chat_id ex_message = 42"
    by (simp_all add: ex_world_def ex_message_def)
  show ?thesis
    using n unknown_spread_not_found [OF n, of ex_deck json_dumps 7 ex_message ex_world]
    by (simp add: s c)
qed

text \<open>
  Claim C1. For a registered spread whose \<open>cards\<close> count does not exceed the size of a deck
  of distinct names, the handler draws a reading of exactly that many cards with pairwise
  distinct names; this reading is the one that is formatted, saved and answered.
\<close>

theorem handle_quick_spread_reading:
  assumes "get_spread_info spreads spread_id = Some info"
    and "info_cards info \<le> length (cards deck)"
    and "distinct (map name (cards deck))"
  shows "\<exists>ds g'. draw_cards deck (info_cards info) (generator w) = (Inr ds, g')
    \<and> length ds = info_cards info
    \<and> distinct (map (name \<circ> fst) ds)
    \<and> handle_quick_spread spreads deck dumps now msg spread_id w =
        (case format_spread_response info ds (tg_first_name (from_user msg)) of
           Inl e \<Rightarrow>
             (Some e, w\<lparr>generator := g', draw_calls := draw_calls w @ [info_cards info]\<rparr>)
         | Inr response \<Rightarrow>
             (case save_reading dumps (db w) now (tg_id (from_user msg)) spread_id ds of
                Inl e \<Rightarrow>
                  (Some e, w\<lparr>generator := g', draw_calls := draw_calls w @ [info_cards info]\<rparr>)
              | Inr (db1, rowid) \<Rightarrow>
                  (None, w\<lparr>generator := g',
                            db := update_user_activity db1 now (tg_id (from_user msg)),
                            sent := sent w @ [(chat_id msg, response)],
                            draw_calls := draw_calls w @ [info_cards info]\<rparr>)))"
proof -
  obtain ds g' where d: "draw_cards deck (info_cards info) (generator w) = (Inr ds, g')"
    and l: "length ds = info_cards info" and n: "distinct (map (name \<circ> fst) ds)"
    using assms(3,2) by (rule draw_cards_ok')
  show ?thesis
    using d l n handle_quick_spread_found [OF assms(1) d] by blast
qed

theorem handle_quick_spread_reading_witness:
  "get_spread_info ex_spreads ''love_spread'' = Some ex_short_positions
   \<and> info_cards ex_short_positions \<le> length (cards ex_deck)
   \<and> distinct (map name (cards ex_deck))
   \<and> draw_cards ex_deck (info_cards ex_short_positions) (generator ex_world) =
       (Inr [(the_empress, False), (the_high_priestess, True), (the_emperor, False)],
        ex_rng\<lparr>consumed := 6\<rparr>)
   \<and> draw_calls (snd (handle_quick_spread ex_spreads ex_deck json_dumps 7 ex_message
         ''love_spread'' ex_world)) = [3]
   \<and> generator (snd (handle_quick_spread ex_spreads ex_deck json_dumps 7 ex_message
         ''love_spread'' ex_world)) = ex_rng\<lparr>consumed := 6\<rparr>"
proof -
  have c: "info_cards ex_short_positions = 3"
    by (simp add: ex_short_positions_def)
  have l: "info_cards ex_short_positions \<le> length (cards ex_deck)"
    by (simp add: c cards_ex_deck length_major_arcana)
  have d: "distinct (map name (cards ex_deck))"
    using major_arcana_names by (simp add: cards_ex_deck)
  obtain ds g' where
    dr: "draw_cards ex_deck (info_cards ex_short_positions) (generator ex_world) = (Inr ds, g')"
    and h: "handle_quick_spread ex_spreads ex_deck json_dumps 7 ex_message ''love_spread'' ex_world =
        (case format_spread_response ex_short_positions ds (tg_first_name (from_user ex_message)) of
           Inl e \<Rightarrow>
             (Some e, ex_world\<lparr>generator := g',
                draw_calls := draw_calls ex_world @ [info_cards ex_short_positions]\<rparr>)
         | Inr response \<Rightarrow>
             (case save_reading json_dumps (db ex_world) 7 (tg_id (from_user ex_message))
                     ''love_spread'' ds of
                Inl e \<Rightarrow>
                  (Some e, ex_world\<lparr>generator := g',
                     draw_calls := draw_calls ex_world @ [info_cards ex_short_positions]\<rparr>)
              | Inr (db1, rowid) \<Rightarrow>
                  (None, ex_world\<lparr>generator := g',
                            db := update_user_activity db1 7 (tg_id (from_user ex_message)),
                            sent := sent ex_world @ [(chat_id ex_message, response)],
                            draw_calls := draw_calls ex_world @ [info_cards ex_short_positions]\<rparr>)))"
    using handle_quick_spread_reading [OF ex_lookup_love l d, where w = ex_world and dumps = json_dumps and now = 7 and msg = ex_message]
    by blast
  have e: "draw_cards ex_deck (info_cards ex_short_positions) (generator ex_world) =
       (Inr [(the_empress, False), (the_high_priestess, True), (the_emperor, False)],
        ex_rng\<lparr>consumed := 6\<rparr>)"
    using ex_draw_world by (simp only: c ex_drawn_def)
  then have g': "g' = ex_rng\<lparr>consumed := 6\<rparr>"
    using dr by simp
  have "draw_calls (snd (handle_quick_spread ex_spreads ex_deck json_dumps 7 ex_message
         ''love_spread'' ex_world)) = [3]"
    unfolding h by (simp add: c ex_world_simps split: sum.splits prod.splits)
  moreover have "generator (snd (handle_quick_spread ex_spreads ex_deck json_dumps 7 ex_message
         ''love_spread'' ex_world)) = ex_rng\<lparr>consumed := 6\<rparr>"
    unfolding h g' by (simp split: sum.splits prod.splits)
  ultimately show ?thesis
    using ex_lookup_love l d e by (intro conjI)
qed








lemma length_three:
  "length ds = 3 \<Longrightarrow> \<exists>a b c. ds = [a, b, c]"
  by (cases ds; simp; cases "tl ds"; simp; cases "tl (tl ds)"; auto)

text \<open>
  Claim C7. When the registry holds \<open>three_cards\<close> as a spread of type \<open>three_cards\<close> with
  3 cards, whose labels are absent or are "Proshloe", "Nastoyashchee", "Budushchee", and
  the deck has at least 3 cards of distinct names, the handler draws exactly 3 cards with
  pairwise distinct names, and the response pairs them in draw order with these three
  labels, in this order.
\<close>

theorem three_cards_reading:
  assumes "get_spread_info spreads ''three_cards'' = Some info"
    and "info_type info = ''three_cards''"
    and "info_cards info = 3"
    and "info_positions info = None \<or> info_positions info = Some default_positions"
    and "3 \<le> length (cards deck)"
    and "distinct (map name (cards deck))"
  shows "\<exists>c1 r1 c2 r2 c3 r3 g'.
      draw_cards deck (info_cards info) (generator w) = (Inr [(c1, r1), (c2, r2), (c3, r3)], g')
    \<and> distinct [name c1, name c2, name c3]
    \<and> three_cards_entries
         (case info_positions info of None \<Rightarrow> default_positions | Some ps \<Rightarrow> ps)
         [(c1, r1), (c2, r2), (c3, r3)] =
       [(1, [1055, 1088, 1086, 1096, 1083, 1086, 1077], c1, r1),
        (2, [1053, 1072, 1089, 1090, 1086, 1103, 1097, 1077, 1077], c2, r2),
        (3, [1041, 1091, 1076, 1091, 1097, 1077, 1077], c3, r3)]
    \<and> format_spread_response info [(c1, r1), (c2, r2), (c3, r3)] user_name =
       Inr ([10024, 32, 42] @ info_name info @ [32, 1076, 1083, 1103, 32] @ user_name
         @ [42, 32, 10024, 10, 10] @ asc ''*'' @ info_description info @ asc ''*'' @ [10, 10]
         @ full_entry (1, [1055, 1088, 1086, 1096, 1083, 1086, 1077], c1, r1)
         @ full_entry (2, [1053, 1072, 1089, 1090, 1086, 1103, 1097, 1077, 1077], c2, r2)
         @ full_entry (3, [1041, 1091, 1076, 1091, 1097, 1077, 1077], c3, r3))
    \<and> generator (snd (handle_quick_spread spreads deck dumps now msg ''three_cards'' w)) = g'
    \<and> draw_calls (snd (handle_quick_spread spreads deck dumps now msg ''three_cards'' w)) =
        draw_calls w @ [3]"
proof -
  obtain ds g' where d: "draw_cards deck (info_cards info) (generator w) = (Inr ds, g')"
    and l: "length ds = info_cards info" and n: "distinct (map (name \<circ> fst) ds)"
    using assms(6) assms(5) unfolding assms(3) [symmetric] by (rule draw_cards_ok')
  obtain a b c where "ds = [a, b, c]"
    using l length_three unfolding assms(3) by blast
  then obtain c1 r1 c2 r2 c3 r3 where ds: "ds = [(c1, r1), (c2, r2), (c3, r3)]"
    by (metis surj_pair)
  have p: "(case info_positions info of None \<Rightarrow> default_positions | Some ps \<Rightarrow> ps) =
      default_positions"
    using assms(4) by auto
  have e: "three_cards_entries default_positions [(c1, r1), (c2, r2), (c3, r3)] =
       [(1, [1055, 1088, 1086, 1096, 1083, 1086, 1077], c1, r1),
        (2, [1053, 1072, 1089, 1090, 1086, 1103, 1097, 1077, 1077], c2, r2),
        (3, [1041, 1091, 1076, 1091, 1097, 1077, 1077], c3, r3)]"
    by (rule three_cards_entries_default)
  have f: "format_spread_response info [(c1, r1), (c2, r2), (c3, r3)] user_name =
       Inr ([10024, 32, 42] @ info_name info @ [32, 1076, 1083, 1103, 32] @ user_name
         @ [42, 32, 10024, 10, 10] @ asc ''*'' @ info_description info @ asc ''*'' @ [10, 10]
         @ full_entry (1, [1055, 1088, 1086, 1096, 1083, 1086, 1077], c1, r1)
         @ full_entry (2, [1053, 1072, 1089, 1090, 1086, 1103, 1097, 1077, 1077], c2, r2)
         @ full_entry (3, [1041, 1091, 1076, 1091, 1097, 1077, 1077], c3, r3))"
    by (simp add: format_spread_response_def Let_def assms(2) p e)
  note h = handle_quick_spread_found [OF assms(1) d, of dumps now msg]
  have g: "generator (snd (handle_quick_spread spreads deck dumps now msg ''three_cards'' w)) = g'"
    unfolding h by (simp split: sum.splits prod.splits)
  have c: "draw_calls (snd (handle_quick_spread spreads deck dumps now msg ''three_cards'' w)) =
        draw_calls w @ [3]"
    unfolding h by (simp add: assms(3) split: sum.splits prod.splits)
  have "distinct [name c1, name c2, name c3]"
    using n by (simp add: ds)
  then show ?thesis
    using d e f g c unfolding ds p by blast
qed

theorem three_cards_reading_witness:
  "get_spread_info ex_spreads ''three_cards'' = Some ex_three_cards
   \<and> info_type ex_three_cards = ''three_cards''
   \<and> info_cards ex_three_cards = 3
   \<and> info_positions ex_three_cards = Some default_positions
   \<and> 3 \<le> length (cards ex_deck)
   \<and> distinct (map name (cards ex_deck))
   \<and> draw_cards ex_deck 3 (generator ex_world) =
       (Inr [(the_empress, False), (the_high_priestess, True), (the_emperor, False)],
        ex_rng\<lparr>consumed := 6\<rparr>)
   \<and> three_cards_entries default_positions
        [(the_empress, False), (the_high_priestess, True), (the_emperor, False)] =
       [(1, [1055, 1088, 1086, 1096, 1083, 1086, 1077], the_empress, False),
        (2, [1053, 1072, 1089, 1090, 1086, 1103, 1097, 1077, 1077], the_high_priestess, True),
        (3, [1041, 1091, 1076, 1091, 1097, 1077, 1077], the_emperor, False)]
   \<and> draw_calls (snd (handle_quick_spread ex_spreads ex_deck json_dumps 7 ex_message
         ''three_cards'' ex_world)) = [3]"
proof -
  have t: "info_type ex_three_cards = ''three_cards''" and c: "info_cards ex_three_cards = 3"
    and p: "info_positions ex_three_cards = Some default_positions"
    by (simp_all add: ex_three_cards_def)
  have l: "3 \<le> length (cards ex_deck)"
    by (simp add: cards_ex_deck length_major_arcana)
  have d: "distinct (map name (cards ex_deck))"
    using major_arcana_names by (simp add: cards_ex_deck)
  have e: "draw_cards ex_deck 3 (generator ex_world) =
       (Inr [(the_empress, False), (the_high_priestess, True), (the_emperor, False)],
        ex_rng\<lparr>consumed := 6\<rparr>)"
    using ex_draw_world by (simp only: ex_drawn_def)
  have "draw_calls (snd (handle_quick_spread ex_spreads ex_deck json_dumps 7 ex_message
         ''three_cards'' ex_world)) = [3]"
    using three_cards_reading [OF ex_lookup t c disjI2 [OF p] l d, where w = ex_world and dumps = json_dumps and now = 7
        and msg = ex_message]
    by (auto simp: ex_world_simps)
  then show ?thesis
    using ex_lookup t c p l d e three_cards_entries_default by (intro conjI)
qed

end
